theory Spec2Isabelle
  imports Complex_Main
begin

section \<open>Camera distortion models (kornia/sensors/camera/distortion\_model.py)\<close>

text \<open>
  The source works on tensors of floating-point numbers. The embedding takes one
  element of the batch: a parameter tensor is a one-dimensional \<open>real list\<close>, a
  \<open>Vector2\<close> is a pair of reals, and arithmetic is exact real arithmetic (no rounding,
  no overflow). Two things the source does beyond arithmetic are kept as values:
  \<^item> indexing the trailing axis of the parameter tensor past its end raises
    \<open>IndexError\<close>, and the stubs raise \<open>NotImplementedError\<close>: results are sums
    \<open>error + 'a\<close>;
  \<^item> a tensor division by zero raises nothing and yields an IEEE infinity or NaN:
    a scalar that went through a division is \<open>Fin r\<close> or \<open>NonFinite\<close>.

  Exact arithmetic cannot overflow. For the one property that is about every point,
  however large, \<open>project\<close> is also given in the arithmetic of a floating-point
  format (\<open>project_ieee\<close>): every operation rounds its exact result and overflows to
  an infinity beyond the format's largest number, and infinities and NaN follow the
  IEEE rules.
\<close>

subsection \<open>Data model\<close>

datatype error = IndexError | NotImplementedError

text \<open>The value of a tensor element after a division: a real, or IEEE inf/nan.\<close>

datatype scalar = Fin real | NonFinite

type_synonym tensor = "real list"

text \<open>\<open>Vector2\<close>: the coordinates \<open>x\<close> and \<open>y\<close>.\<close>

type_synonym vector2 = "real \<times> real"

text \<open>\<open>t[..., i]\<close> for a literal \<open>i \<ge> 0\<close>: entry \<open>i\<close> of the trailing axis.\<close>

definition trailing :: "tensor \<Rightarrow> nat \<Rightarrow> error + real" where
  "trailing t i = (if i < length t then Inr (t ! i) else Inl IndexError)"

text \<open>
  \<open>t[i]\<close>: entry \<open>i\<close> of the leading axis. A one-dimensional tensor has one axis,
  which is both the leading and the trailing one.
\<close>

definition leading :: "tensor \<Rightarrow> nat \<Rightarrow> error + real" where
  "leading t i = (if i < length t then Inr (t ! i) else Inl IndexError)"

text \<open>Sequencing of statements that may raise: the first exception ends the call.\<close>

definition ebind :: "error + 'a \<Rightarrow> ('a \<Rightarrow> error + 'b) \<Rightarrow> error + 'b" where
  "ebind m f = (case m of Inl e \<Rightarrow> Inl e | Inr v \<Rightarrow> f v)"

text \<open>
  Tensor division \<open>a / b\<close> of two finite elements: no exception, a non-finite element
  when the divisor is zero.
\<close>

definition tdiv :: "real \<Rightarrow> real \<Rightarrow> scalar" where
  "tdiv a b = (if b = 0 then NonFinite else Fin (a / b))"

text \<open>
  Multiplication, addition and subtraction of an element that may be non-finite with a
  finite one. An infinity or NaN stays non-finite under each of them (\<open>inf * 0\<close> and
  \<open>inf - inf\<close> are NaN).
\<close>

fun tmul :: "scalar \<Rightarrow> scalar \<Rightarrow> scalar" where
  "tmul (Fin a) (Fin b) = Fin (a * b)"
| "tmul _ _ = NonFinite"

fun tadd :: "scalar \<Rightarrow> scalar \<Rightarrow> scalar" where
  "tadd (Fin a) (Fin b) = Fin (a + b)"
| "tadd _ _ = NonFinite"

fun tsub :: "scalar \<Rightarrow> scalar \<Rightarrow> scalar" where
  "tsub (Fin a) (Fin b) = Fin (a - b)"
| "tsub _ _ = NonFinite"

subsection \<open>AffineTransform\<close>

text \<open>
  \<^verbatim>\<open>fx, fy, cx, cy = params[..., 0], params[..., 1], params[..., 2], params[..., 3]\<close>
  The tuple is evaluated left to right.
\<close>

definition affine_params :: "tensor \<Rightarrow> error + (real \<times> real \<times> real \<times> real)" where
  "affine_params params =
     ebind (trailing params 0) (\<lambda>fx.
     ebind (trailing params 1) (\<lambda>fy.
     ebind (trailing params 2) (\<lambda>cx.
     ebind (trailing params 3) (\<lambda>cy.
     Inr (fx, fy, cx, cy)))))"

definition affine_distort :: "tensor \<Rightarrow> vector2 \<Rightarrow> error + vector2" where
  "affine_distort params points =
     ebind (affine_params params) (\<lambda>(fx, fy, cx, cy).
       let u = fst points * fx + cx;
           v = snd points * fy + cy
       in Inr (u, v))"

definition affine_undistort :: "tensor \<Rightarrow> vector2 \<Rightarrow> error + (scalar \<times> scalar)" where
  "affine_undistort params points =
     ebind (affine_params params) (\<lambda>(fx, fy, cx, cy).
       let x = tdiv (fst points - cx) fx;
           y = tdiv (snd points - cy) fy
       in Inr (x, y))"

subsection \<open>BrownConradyTransform.project\<close>

text \<open>
  The two tuples read entries 0 to 7 of the trailing axis, left to right. The only
  division is \<open>icdist\<close>; it enters both coordinates by a product.
\<close>

definition project :: "tensor \<Rightarrow> vector2 \<Rightarrow> error + (scalar \<times> scalar)" where
  "project distortion_params points =
     (let x = fst points; y = snd points in
      ebind (trailing distortion_params 0) (\<lambda>k1.
      ebind (trailing distortion_params 1) (\<lambda>k2.
      ebind (trailing distortion_params 2) (\<lambda>p1.
      ebind (trailing distortion_params 3) (\<lambda>p2.
      ebind (trailing distortion_params 4) (\<lambda>k3.
      ebind (trailing distortion_params 5) (\<lambda>k4.
      ebind (trailing distortion_params 6) (\<lambda>k5.
      ebind (trailing distortion_params 7) (\<lambda>k6.
        let r2 = x * x + y * y;
            r4 = r2 * r2;
            r6 = r4 * r2;
            a1 = 2 * x * y;
            a2 = r2 + 2 * x * x;
            a3 = r2 + 2 * y * y;
            cdist = 1 + k1 * r2 + k2 * r4 + k3 * r6;
            icdist = tdiv 1 (1 + k4 * r2 + k5 * r4 + k6 * r6);
            xd0 = tadd (tadd (tmul (Fin (x * cdist)) icdist) (Fin (p1 * a1))) (Fin (p2 * a2));
            yd0 = tadd (tadd (tmul (Fin (y * cdist)) icdist) (Fin (p1 * a3))) (Fin (p2 * a1))
        in Inr (xd0, yd0))))))))))"

subsection \<open>BrownConradyTransform.unproject\<close>

text \<open>
  What one pass of the loop body computes: the residual \<open>f_xy\<close> and the four
  quantities \<open>du_dx\<close>, \<open>du_dy\<close>, \<open>dv_dx\<close>, \<open>dv_dy\<close>. The source binds them to
  local names and does nothing more with them.
\<close>

record iteration =
  f_xy :: "scalar \<times> scalar"
  du_dx :: scalar
  du_dy :: scalar
  dv_dx :: scalar
  dv_dy :: scalar

text \<open>
  The loop body at the estimate \<open>xy\<close>. Each entry of \<open>d\<close> is read where the source
  first reads it (a second read of the same entry gives the same value); \<open>d[2]\<close> in
  the last two lines indexes the leading axis. \<open>c7 = 1.0 / c6\<close> is the only division.
\<close>

definition unproject_body :: "tensor \<Rightarrow> vector2 \<Rightarrow> vector2 \<Rightarrow> error + iteration" where
  "unproject_body distortion_params uv_normalized xy =
     (let x = fst xy; y = snd xy in
      ebind (project distortion_params (x, y)) (\<lambda>pr.
        let f = (tsub (fst pr) (Fin (fst uv_normalized)),
                 tsub (snd pr) (Fin (snd uv_normalized)));
            a = x;
            b = y;
            d = distortion_params;
            c0 = a * a;
            c1 = b * b;
            c2 = c0 + c1;
            c3 = c2 * c2;
            c4 = c3 * c2
        in
        ebind (trailing d 5) (\<lambda>d5.
        ebind (trailing d 6) (\<lambda>d6.
        ebind (trailing d 7) (\<lambda>d7.
        let c5 = c2 * d5 + c3 * d6 + c4 * d7 + 1;
            c6 = c5 * c5;
            c7 = tdiv 1 c6
        in
        ebind (trailing d 3) (\<lambda>d3.
        ebind (trailing d 2) (\<lambda>d2.
        ebind (trailing d 0) (\<lambda>d0.
        ebind (trailing d 1) (\<lambda>d1.
        ebind (trailing d 4) (\<lambda>d4.
        let c8 = a * d3;
            c9 = 2 * d2;
            c10 = 2 * c2;
            c11 = 3 * c3;
            c12 = c2 * d0;
            c13 = c3 * d1;
            c14 = c4 * d4;
            c15 = 2 * (c10 * d6 + c11 * d7 + d5) * (c12 + c13 + c14 + 1);
            c16 = 2 * c10 * d1 + 2 * c11 * d4 + 2 * d0;
            c17 = 1 * c12 + 1 * c13 + 1 * c14 + 1;
            c18 = b * d3;
            c19 = a * b;
            c20 = - c15 * c19 + c16 * c19 * c15
        in
        ebind (leading d 2) (\<lambda>dl2.
          Inr \<lparr> f_xy = f,
                du_dx = tmul c7 (Fin (- c0 * c15 + c5 * (c0 * c16 + c17) + c6 * (b * c9 + 6 * c8))),
                du_dy = tmul c7 (Fin (c20 + c6 * (a * c9 + 2 * c18))),
                dv_dx = tmul c7 (Fin (c20 + c6 * (2 * a * dl2 + 2 * c18))),
                dv_dy = tmul c7 (Fin (- c1 * c15 + c5 * (c1 * c16 + c17)
                                       + c6 * (6 * b * dl2 + 2 * c8))) \<rparr>)))))))))))"

text \<open>
  \<^verbatim>\<open>for i in range(50): ...\<close> with the loop's state, the estimate \<open>xy\<close>. The body
  never assigns \<open>xy\<close>, so the next pass starts from the same estimate; an exception in
  a pass ends the loop. The result is the state after the last pass.
\<close>

fun unproject_loop :: "nat \<Rightarrow> tensor \<Rightarrow> vector2 \<Rightarrow> vector2 \<Rightarrow> error + vector2" where
  "unproject_loop 0 distortion_params uv_normalized xy = Inr xy"
| "unproject_loop (Suc n) distortion_params uv_normalized xy =
     ebind (unproject_body distortion_params uv_normalized xy) (\<lambda>_.
       unproject_loop n distortion_params uv_normalized xy)"

text \<open>
  \<open>xy = uv_normalized.data\<close>, then the loop. The function has no \<open>return\<close>
  statement: a call that raises nothing returns Python's \<open>None\<close>, here \<open>None\<close>
  of \<open>vector2 option\<close>.
\<close>

definition unproject :: "tensor \<Rightarrow> vector2 \<Rightarrow> error + vector2 option" where
  "unproject distortion_params uv_normalized =
     (let xy = uv_normalized in
      ebind (unproject_loop 50 distortion_params uv_normalized xy) (\<lambda>_. Inr None))"

subsection \<open>The unimplemented operations\<close>

definition brown_conrady_distort :: "tensor \<Rightarrow> vector2 \<Rightarrow> error + vector2" where
  "brown_conrady_distort params points = Inl NotImplementedError"

definition brown_conrady_undistort :: "tensor \<Rightarrow> vector2 \<Rightarrow> error + vector2" where
  "brown_conrady_undistort params points = Inl NotImplementedError"

definition kannala_brandt_k3_distort :: "tensor \<Rightarrow> vector2 \<Rightarrow> error + vector2" where
  "kannala_brandt_k3_distort params points = Inl NotImplementedError"

definition kannala_brandt_k3_undistort :: "tensor \<Rightarrow> vector2 \<Rightarrow> error + vector2" where
  "kannala_brandt_k3_undistort params points = Inl NotImplementedError"

subsection \<open>The forward formula as the specification writes it\<close>

text \<open>
  Section 4.2 of the specification, over the reals, with the coefficients in the order
  \<open>k1, k2, p1, p2, k3, k4, k5, k6\<close>. It is compared with \<open>project\<close> below.
\<close>

definition project_spec ::
  "real \<Rightarrow> real \<Rightarrow> real \<Rightarrow> real \<Rightarrow> real \<Rightarrow> real \<Rightarrow> real \<Rightarrow> real \<Rightarrow> real \<Rightarrow> real \<Rightarrow> real \<times> real" where
  "project_spec k1 k2 p1 p2 k3 k4 k5 k6 x y =
     (let r2 = x\<^sup>2 + y\<^sup>2;
          r4 = r2\<^sup>2;
          r6 = r4 * r2;
          radial_num = 1 + k1 * r2 + k2 * r4 + k3 * r6;
          radial_den = 1 / (1 + k4 * r2 + k5 * r4 + k6 * r6);
          a1 = 2 * x * y;
          a2 = r2 + 2 * x\<^sup>2;
          a3 = r2 + 2 * y\<^sup>2
      in (x * radial_num * radial_den + p1 * a1 + p2 * a2,
          y * radial_num * radial_den + p1 * a3 + p2 * a1))"

subsection \<open>The coordinates of \<open>project\<close> as real functions\<close>

text \<open>
  To speak of partial derivatives, the two coordinates \<open>xd\<close> and \<open>yd\<close> of
  \<open>project\<close> are read as functions of \<open>x\<close> and \<open>y\<close>. Where \<open>project\<close> raises or
  the coordinate is not finite the function is set to 0; no statement below is about
  such a point.
\<close>

definition fin_part :: "scalar \<Rightarrow> real" where
  "fin_part s = (case s of Fin r \<Rightarrow> r | NonFinite \<Rightarrow> 0)"

definition project_u :: "tensor \<Rightarrow> real \<Rightarrow> real \<Rightarrow> real" where
  "project_u d x y = (case project d (x, y) of Inl e \<Rightarrow> 0 | Inr pr \<Rightarrow> fin_part (fst pr))"

definition project_v :: "tensor \<Rightarrow> real \<Rightarrow> real \<Rightarrow> real" where
  "project_v d x y = (case project d (x, y) of Inl e \<Rightarrow> 0 | Inr pr \<Rightarrow> fin_part (snd pr))"

subsection \<open>Floating-point formats\<close>

text \<open>
  A value of a tensor element: a real number of the format, an infinity or NaN. Zero
  carries no sign here.
\<close>

datatype fval = Num real | PosInf | NegInf | NaN

fun is_num :: "fval \<Rightarrow> bool" where
  "is_num (Num r) = True"
| "is_num _ = False"

text \<open>
  A format is its rounding function (to the nearest number of the format, the
  exponent taken as unbounded above) and its largest finite number. Nothing is fixed
  about \<open>rnd\<close>: what a property needs of it is among its hypotheses.
\<close>

record format =
  rnd :: "real \<Rightarrow> real"
  fmax :: real

text \<open>\<open>r\<close> is a finite number of the format.\<close>

definition is_float :: "format \<Rightarrow> real \<Rightarrow> bool" where
  "is_float fmt r = (rnd fmt r = r \<and> \<bar>r\<bar> \<le> fmax fmt)"

text \<open>The result of an operation whose exact value is \<open>r\<close>: rounded, then checked for overflow.\<close>

definition fround :: "format \<Rightarrow> real \<Rightarrow> fval" where
  "fround fmt r =
     (let q = rnd fmt r
      in if fmax fmt < q then PosInf else if q < - fmax fmt then NegInf else Num q)"

text \<open>Multiplication: \<open>0 * inf\<close> is NaN, otherwise an infinity keeps the product's sign.\<close>

fun fmul :: "format \<Rightarrow> fval \<Rightarrow> fval \<Rightarrow> fval" where
  "fmul fmt (Num u) (Num v) = fround fmt (u * v)"
| "fmul fmt NaN _ = NaN"
| "fmul fmt _ NaN = NaN"
| "fmul fmt (Num u) PosInf = (if u = 0 then NaN else if 0 < u then PosInf else NegInf)"
| "fmul fmt (Num u) NegInf = (if u = 0 then NaN else if 0 < u then NegInf else PosInf)"
| "fmul fmt PosInf (Num v) = (if v = 0 then NaN else if 0 < v then PosInf else NegInf)"
| "fmul fmt NegInf (Num v) = (if v = 0 then NaN else if 0 < v then NegInf else PosInf)"
| "fmul fmt PosInf PosInf = PosInf"
| "fmul fmt PosInf NegInf = NegInf"
| "fmul fmt NegInf PosInf = NegInf"
| "fmul fmt NegInf NegInf = PosInf"

text \<open>Addition: \<open>inf + (-inf)\<close> is NaN.\<close>

fun fadd :: "format \<Rightarrow> fval \<Rightarrow> fval \<Rightarrow> fval" where
  "fadd fmt (Num u) (Num v) = fround fmt (u + v)"
| "fadd fmt NaN _ = NaN"
| "fadd fmt _ NaN = NaN"
| "fadd fmt PosInf NegInf = NaN"
| "fadd fmt NegInf PosInf = NaN"
| "fadd fmt PosInf _ = PosInf"
| "fadd fmt _ PosInf = PosInf"
| "fadd fmt NegInf _ = NegInf"
| "fadd fmt _ NegInf = NegInf"

text \<open>
  Division. A finite number over an infinity is 0, an infinity over an infinity is NaN.
  A zero divisor is taken as \<open>+0\<close>: the only divisor in \<open>project\<close> is a sum that
  starts from 1, and an IEEE sum is \<open>-0\<close> only when both summands are.
\<close>

fun fdiv :: "format \<Rightarrow> fval \<Rightarrow> fval \<Rightarrow> fval" where
  "fdiv fmt (Num u) (Num v) =
     (if v = 0 then (if u = 0 then NaN else if 0 < u then PosInf else NegInf)
      else fround fmt (u / v))"
| "fdiv fmt NaN _ = NaN"
| "fdiv fmt _ NaN = NaN"
| "fdiv fmt (Num u) PosInf = Num 0"
| "fdiv fmt (Num u) NegInf = Num 0"
| "fdiv fmt PosInf (Num v) = (if v < 0 then NegInf else PosInf)"
| "fdiv fmt NegInf (Num v) = (if v < 0 then PosInf else NegInf)"
| "fdiv fmt _ _ = NaN"

subsection \<open>BrownConradyTransform.project in a floating-point format\<close>

text \<open>
  Lines 66 to 71 of the source: the local values that depend on the point only.
  \<open>2 * x * y\<close> is \<open>(2 * x) * y\<close>, and \<open>r2 + 2 * x * x\<close> is \<open>r2 + ((2 * x) * x)\<close>.
\<close>

definition project_locals ::
  "format \<Rightarrow> vector2 \<Rightarrow> fval \<times> fval \<times> fval \<times> fval \<times> fval \<times> fval" where
  "project_locals fmt points =
     (let x = Num (fst points); y = Num (snd points);
          r2 = fadd fmt (fmul fmt x x) (fmul fmt y y);
          r4 = fmul fmt r2 r2;
          r6 = fmul fmt r4 r2;
          a1 = fmul fmt (fmul fmt (Num 2) x) y;
          a2 = fadd fmt r2 (fmul fmt (fmul fmt (Num 2) x) x);
          a3 = fadd fmt r2 (fmul fmt (fmul fmt (Num 2) y) y)
      in (r2, r4, r6, a1, a2, a3))"

text \<open>
  \<open>project\<close>, each operation in the format. The coordinates of the point and the
  coefficients are finite numbers; sums and products associate to the left as in the
  source.
\<close>

definition project_ieee :: "format \<Rightarrow> tensor \<Rightarrow> vector2 \<Rightarrow> error + (fval \<times> fval)" where
  "project_ieee fmt distortion_params points =
     (let x = Num (fst points); y = Num (snd points) in
      ebind (trailing distortion_params 0) (\<lambda>k1.
      ebind (trailing distortion_params 1) (\<lambda>k2.
      ebind (trailing distortion_params 2) (\<lambda>p1.
      ebind (trailing distortion_params 3) (\<lambda>p2.
      ebind (trailing distortion_params 4) (\<lambda>k3.
      ebind (trailing distortion_params 5) (\<lambda>k4.
      ebind (trailing distortion_params 6) (\<lambda>k5.
      ebind (trailing distortion_params 7) (\<lambda>k6.
        let (r2, r4, r6, a1, a2, a3) = project_locals fmt points;
            cdist = fadd fmt (fadd fmt (fadd fmt (Num 1) (fmul fmt (Num k1) r2))
                                       (fmul fmt (Num k2) r4))
                             (fmul fmt (Num k3) r6);
            icdist = fdiv fmt (Num 1)
                       (fadd fmt (fadd fmt (fadd fmt (Num 1) (fmul fmt (Num k4) r2))
                                           (fmul fmt (Num k5) r4))
                                 (fmul fmt (Num k6) r6));
            xd0 = fadd fmt (fadd fmt (fmul fmt (fmul fmt x cdist) icdist) (fmul fmt (Num p1) a1))
                           (fmul fmt (Num p2) a2);
            yd0 = fadd fmt (fadd fmt (fmul fmt (fmul fmt y cdist) icdist) (fmul fmt (Num p1) a3))
                           (fmul fmt (Num p2) a1)
        in Inr (xd0, yd0))))))))))"

text \<open>
  The range of IEEE binary32, the default element type of a tensor, with a rounding
  that changes nothing. On numbers that binary32 holds exactly (an integer below
  \<open>2\<^sup>2\<^sup>4\<close> times a power of two, within the range) the rounding of binary32
  changes nothing either.
\<close>

definition binary32_range :: format where
  "binary32_range = \<lparr> rnd = (\<lambda>r. r), fmax = (2 - 1 / 2 ^ 23) * 2 ^ 127 \<rparr>"

section \<open>Properties\<close>

subsection \<open>Evaluation lemmas\<close>

lemma ebind_Inr: "ebind (Inr v) f = f v"
  by (simp add: ebind_def)

lemma ebind_Inl: "ebind (Inl e) f = Inl e"
  by (simp add: ebind_def)

lemma affine_params_four:
  "affine_params (fx # fy # cx # cy # rest) = Inr (fx, fy, cx, cy)"
  by (simp add: affine_params_def ebind_def trailing_def)

lemma trailing_eight:
  "trailing [k1, k2, p1, p2, k3, k4, k5, k6] 0 = Inr k1"
  "trailing [k1, k2, p1, p2, k3, k4, k5, k6] 1 = Inr k2"
  "trailing [k1, k2, p1, p2, k3, k4, k5, k6] 2 = Inr p1"
  "trailing [k1, k2, p1, p2, k3, k4, k5, k6] 3 = Inr p2"
  "trailing [k1, k2, p1, p2, k3, k4, k5, k6] 4 = Inr k3"
  "trailing [k1, k2, p1, p2, k3, k4, k5, k6] 5 = Inr k4"
  "trailing [k1, k2, p1, p2, k3, k4, k5, k6] 6 = Inr k5"
  "trailing [k1, k2, p1, p2, k3, k4, k5, k6] 7 = Inr k6"
  by (simp_all add: trailing_def)

lemma leading_eight: "leading [k1, k2, p1, p2, k3, k4, k5, k6] 2 = Inr p1"
  by (simp add: leading_def)

text \<open>\<open>project\<close> on eight coefficients, with the local names unfolded.\<close>

lemma project_eight:
  "project [k1, k2, p1, p2, k3, k4, k5, k6] (x, y) =
     Inr (tadd (tadd (tmul (Fin (x * (1 + k1 * (x * x + y * y) + k2 * ((x * x + y * y) * (x * x + y * y))
                                     + k3 * ((x * x + y * y) * (x * x + y * y) * (x * x + y * y)))))
                           (tdiv 1 (1 + k4 * (x * x + y * y) + k5 * ((x * x + y * y) * (x * x + y * y))
                                     + k6 * ((x * x + y * y) * (x * x + y * y) * (x * x + y * y)))))
                     (Fin (p1 * (2 * x * y))))
                (Fin (p2 * (x * x + y * y + 2 * x * x))),
          tadd (tadd (tmul (Fin (y * (1 + k1 * (x * x + y * y) + k2 * ((x * x + y * y) * (x * x + y * y))
                                     + k3 * ((x * x + y * y) * (x * x + y * y) * (x * x + y * y)))))
                           (tdiv 1 (1 + k4 * (x * x + y * y) + k5 * ((x * x + y * y) * (x * x + y * y))
                                     + k6 * ((x * x + y * y) * (x * x + y * y) * (x * x + y * y)))))
                     (Fin (p1 * (x * x + y * y + 2 * y * y))))
                (Fin (p2 * (2 * x * y))))"
  unfolding project_def Let_def trailing_eight ebind_Inr fst_conv snd_conv ..

subsection \<open>AffineTransform\<close>

text \<open>
  C9. With \<open>params = (1, 2, 3, 4)\<close> and \<open>point = (1, 2)\<close>, \<open>distort\<close> returns
  \<open>(4, 8)\<close> and \<open>undistort\<close> on the same params and point returns \<open>(-2, -1)\<close>.
\<close>

theorem affine_docstring_example:
  "affine_distort [1, 2, 3, 4] (1, 2) = Inr (4, 8) \<and>
   affine_undistort [1, 2, 3, 4] (1, 2) = Inr (Fin (- 2), Fin (- 1))"
  by (simp add: affine_distort_def affine_undistort_def affine_params_four ebind_def tdiv_def)

text \<open>
  C7. For every point \<open>(x, y)\<close> and parameters \<open>[fx, fy, cx, cy]\<close>, \<open>distort\<close>
  returns \<open>(x * fx + cx, y * fy + cy)\<close>; for \<open>fx\<close> and \<open>fy\<close> non-zero,
  \<open>undistort\<close> of \<open>(u, v)\<close> returns \<open>((u - cx) / fx, (v - cy) / fy)\<close>.
\<close>

theorem affine_formulas:
  "affine_distort [fx, fy, cx, cy] (x, y) = Inr (x * fx + cx, y * fy + cy) \<and>
   (fx \<noteq> 0 \<longrightarrow> fy \<noteq> 0 \<longrightarrow>
      affine_undistort [fx, fy, cx, cy] (u, v) = Inr (Fin ((u - cx) / fx), Fin ((v - cy) / fy)))"
  by (simp add: affine_distort_def affine_undistort_def affine_params_four ebind_Inr tdiv_def)

theorem affine_formulas_witness:
  "affine_distort [2, 4, 1, 3] (5, 7) = Inr (11, 31) \<and>
   (2::real) \<noteq> 0 \<and> (4::real) \<noteq> 0 \<and>
   affine_undistort [2, 4, 1, 3] (11, 31) = Inr (Fin 5, Fin 7)"
  using affine_formulas [of 2 4 1 3 5 7 11 31] by simp



text \<open>Two tensors with the same first \<open>n\<close> entries give the same read below \<open>n\<close>.\<close>

lemma trailing_take:
  assumes "take n p = take n q" and "i < n"
  shows "trailing p i = trailing q i"
proof -
  have "length (take n p) = length (take n q)"
    using assms(1) by simp
  then have len: "min (length p) n = min (length q) n"
    by simp
  show ?thesis
  proof (cases "i < length p")
    case True
    with len assms(2) have iq: "i < length q" by linarith
    have "p ! i = take n p ! i" using assms(2) by simp
    also have "\<dots> = q ! i" using assms by simp
    finally show ?thesis using True iq by (simp add: trailing_def)
  next
    case False
    with len assms(2) have "\<not> i < length q" by linarith
    with False show ?thesis by (simp add: trailing_def)
  qed
qed

lemma affine_params_take:
  assumes "take 4 p = take 4 q"
  shows "affine_params p = affine_params q"
proof -
  have t: "trailing p 0 = trailing q 0" "trailing p 1 = trailing q 1"
          "trailing p 2 = trailing q 2" "trailing p 3 = trailing q 3"
    using trailing_take [OF assms] by simp_all
  show ?thesis
    unfolding affine_params_def t ..
qed

text \<open>
  C10. \<open>distort\<close> and \<open>undistort\<close> of AffineTransform read only entries 0 to 3 of
  the parameters: two parameter tensors that agree on these entries give the same
  output at every point, whatever entries follow.
\<close>

theorem affine_reads_four_entries:
  "take 4 p = take 4 q \<Longrightarrow>
   affine_distort p points = affine_distort q points \<and>
   affine_undistort p points = affine_undistort q points"
proof -
  assume "take 4 p = take 4 q"
  then have "affine_params p = affine_params q"
    by (rule affine_params_take)
  then show ?thesis
    by (simp add: affine_distort_def affine_undistort_def)
qed

theorem affine_reads_four_entries_witness:
  "take 4 [1, 2, 3, 4, 5 :: real] = take 4 [1, 2, 3, 4, 99, 100] \<and>
   affine_distort [1, 2, 3, 4, 5] (1, 2) = affine_distort [1, 2, 3, 4, 99, 100] (1, 2) \<and>
   affine_undistort [1, 2, 3, 4, 5] (1, 2) = affine_undistort [1, 2, 3, 4, 99, 100] (1, 2)"
proof -
  have h: "take 4 [1, 2, 3, 4, 5 :: real] = take 4 [1, 2, 3, 4, 99, 100]"
    by simp
  show ?thesis
    using h affine_reads_four_entries [OF h, of "(1, 2)"] by blast
qed

subsection \<open>BrownConradyTransform.project\<close>

text \<open>
  C4. For every point \<open>(x, y)\<close> and parameters \<open>[k1, k2, p1, p2, k3, k4, k5, k6]\<close>,
  \<open>project\<close> returns the pair of the specification's formula, whenever the
  denominator \<open>1 + k4 * r2 + k5 * r4 + k6 * r6\<close> is non-zero.
\<close>

theorem project_formula:
  "1 + k4 * (x\<^sup>2 + y\<^sup>2) + k5 * (x\<^sup>2 + y\<^sup>2)\<^sup>2 + k6 * ((x\<^sup>2 + y\<^sup>2)\<^sup>2 * (x\<^sup>2 + y\<^sup>2)) \<noteq> 0 \<Longrightarrow>
   project [k1, k2, p1, p2, k3, k4, k5, k6] (x, y) =
     Inr (Fin (fst (project_spec k1 k2 p1 p2 k3 k4 k5 k6 x y)),
          Fin (snd (project_spec k1 k2 p1 p2 k3 k4 k5 k6 x y)))"
  by (simp add: project_eight project_spec_def Let_def tdiv_def power2_eq_square)

theorem project_formula_witness:
  "(1::real) + 1 * (1\<^sup>2 + 2\<^sup>2) + 0 * (1\<^sup>2 + 2\<^sup>2)\<^sup>2 + 0 * ((1\<^sup>2 + 2\<^sup>2)\<^sup>2 * (1\<^sup>2 + 2\<^sup>2)) \<noteq> 0 \<and>
   project [1, 0, 1, 1, 0, 1, 0, 0] (1, 2) = Inr (Fin 12, Fin 19)"
  using project_formula [of 1 1 2 0 0 1 0 1 1 0]
  by (simp add: project_spec_def Let_def)

subsection \<open>BrownConradyTransform.project with zero coefficients\<close>

text \<open>A finite number of the format rounds to itself; NaN absorbs.\<close>

lemma fround_float: "is_float fmt r \<Longrightarrow> fround fmt r = Num r"
  by (auto simp: is_float_def fround_def Let_def)

lemma fmul_NaN_right: "fmul fmt a NaN = NaN"
  by (cases a) simp_all

lemma fadd_NaN_right: "fadd fmt a NaN = NaN"
  by (cases a) simp_all

lemma fdiv_NaN_right: "fdiv fmt a NaN = NaN"
  by (cases a) simp_all

lemma fmul_zero_not_num: "\<not> is_num b \<Longrightarrow> fmul fmt (Num 0) b = NaN"
  by (cases b) simp_all

lemma is_num_fadd: "is_num (fadd fmt a b) \<Longrightarrow> is_num a \<and> is_num b"
  by (cases a; cases b) simp_all

lemma is_num_fmul: "is_num (fmul fmt a b) \<Longrightarrow> is_num a \<and> is_num b"
  by (cases a; cases b) (simp_all split: if_splits)

text \<open>
  C5. The claim: with all eight coefficients zero, \<open>project\<close> returns \<open>p\<close> for
  every point \<open>p\<close>. Amended: it returns \<open>p\<close> at every point whose local values
  \<open>r2\<close>, \<open>r4\<close>, \<open>r6\<close>, \<open>a1\<close>, \<open>a2\<close>, \<open>a3\<close> are all finite in the tensor's
  format. This holds for every format in which 0, 1 and the two coordinates are
  numbers, whatever its rounding.
\<close>

theorem project_zero_in_range:
  assumes "is_float fmt 0" and "is_float fmt 1" and "is_float fmt x" and "is_float fmt y"
    and "project_locals fmt (x, y) = (Num r2, Num r4, Num r6, Num a1, Num a2, Num a3)"
  shows "project_ieee fmt [0, 0, 0, 0, 0, 0, 0, 0] (x, y) = Inr (Num x, Num y)"
  unfolding project_ieee_def trailing_eight ebind_Inr Let_def assms(5)
  using assms(1-4) by (simp add: fround_float)

theorem project_zero_in_range_witness:
  "is_float binary32_range 0 \<and> is_float binary32_range 1 \<and>
   is_float binary32_range 1024 \<and> is_float binary32_range 2048 \<and>
   project_locals binary32_range (1024, 2048)
     = (Num 5242880, Num 27487790694400, Num 144115188075855872000,
        Num 4194304, Num 7340032, Num 13631488) \<and>
   project_ieee binary32_range [0, 0, 0, 0, 0, 0, 0, 0] (1024, 2048) = Inr (Num 1024, Num 2048)"
proof -
  have f: "is_float binary32_range 0" "is_float binary32_range 1"
          "is_float binary32_range 1024" "is_float binary32_range 2048"
    by (simp_all add: is_float_def binary32_range_def)
  have l: "project_locals binary32_range (1024, 2048)
     = (Num 5242880, Num 27487790694400, Num 144115188075855872000,
        Num 4194304, Num 7340032, Num 13631488)"
    by (simp add: project_locals_def Let_def fround_def binary32_range_def)
  show ?thesis
    using f l project_zero_in_range [OF f l] by blast
qed

text \<open>
  The claim as stated fails in binary32 at \<open>(2\<^sup>2\<^sup>2, 0)\<close>: \<open>r2 = 2\<^sup>4\<^sup>4\<close>,
  \<open>r4 = 2\<^sup>8\<^sup>8\<close>, and \<open>r6 = 2\<^sup>1\<^sup>3\<^sup>2\<close> overflows to infinity; then \<open>k3 * r6\<close> is
  \<open>0 * inf\<close>, NaN, and NaN reaches both coordinates.
\<close>

theorem project_zero_overflow_counterexample:
  "project_ieee binary32_range [0, 0, 0, 0, 0, 0, 0, 0] (4194304, 0) = Inr (NaN, NaN) \<and>
   project_ieee binary32_range [0, 0, 0, 0, 0, 0, 0, 0] (4194304, 0) \<noteq> Inr (Num 4194304, Num 0)"
proof -
  have l: "project_locals binary32_range (4194304, 0)
     = (Num (2 ^ 44), Num (2 ^ 88), PosInf, Num 0, Num (3 * 2 ^ 44), Num (2 ^ 44))"
    by (simp add: project_locals_def Let_def fround_def binary32_range_def)
  have "project_ieee binary32_range [0, 0, 0, 0, 0, 0, 0, 0] (4194304, 0) = Inr (NaN, NaN)"
    unfolding project_ieee_def trailing_eight ebind_Inr Let_def l
    by (simp add: fround_def binary32_range_def)
  then show ?thesis by simp
qed

text \<open>
  The condition of the amended statement is the exact one. In every format, an
  \<open>r6\<close> that is not a number gives NaN in both coordinates, and a result made of
  two numbers has all six local values finite.
\<close>

lemma project_zero_not_finite:
  assumes "project_locals fmt (x, y) = (r2, r4, r6, a1, a2, a3)" and "\<not> is_num r6"
  shows "project_ieee fmt [0, 0, 0, 0, 0, 0, 0, 0] (x, y) = Inr (NaN, NaN)"
  unfolding project_ieee_def trailing_eight ebind_Inr Let_def assms(1)
  by (simp add: fmul_zero_not_num [OF assms(2)] fadd_NaN_right fmul_NaN_right fdiv_NaN_right)

lemma project_zero_finite_only_if:
  assumes l: "project_locals fmt (x, y) = (r2, r4, r6, a1, a2, a3)"
    and p: "project_ieee fmt [0, 0, 0, 0, 0, 0, 0, 0] (x, y) = Inr (u, v)"
    and "is_num u" and "is_num v"
  shows "is_num r2 \<and> is_num r4 \<and> is_num r6 \<and> is_num a1 \<and> is_num a2 \<and> is_num a3"
proof -
  define cdist where "cdist = fadd fmt (fadd fmt (fadd fmt (Num 1) (fmul fmt (Num 0) r2))
                                       (fmul fmt (Num 0) r4)) (fmul fmt (Num 0) r6)"
  define icdist where "icdist = fdiv fmt (Num 1) cdist"
  have u: "u = fadd fmt (fadd fmt (fmul fmt (fmul fmt (Num x) cdist) icdist) (fmul fmt (Num 0) a1))
                        (fmul fmt (Num 0) a2)"
   and v: "v = fadd fmt (fadd fmt (fmul fmt (fmul fmt (Num y) cdist) icdist) (fmul fmt (Num 0) a3))
                        (fmul fmt (Num 0) a1)"
    using p unfolding project_ieee_def trailing_eight ebind_Inr Let_def l cdist_def icdist_def
    by simp_all
  from \<open>is_num u\<close> have "is_num a2" "is_num a1" "is_num cdist"
    unfolding u by (blast dest: is_num_fadd is_num_fmul)+
  moreover from \<open>is_num v\<close> have "is_num a3"
    unfolding v by (blast dest: is_num_fadd is_num_fmul)
  moreover from \<open>is_num cdist\<close> have "is_num r6"
    unfolding cdist_def by (blast dest: is_num_fadd is_num_fmul)
  moreover have "r6 = fmul fmt r4 r2"
    using l by (auto simp: project_locals_def Let_def)
  ultimately show ?thesis
    by (blast dest: is_num_fmul)
qed


subsection \<open>The unimplemented operations\<close>

text \<open>
  C6. \<open>distort\<close> and \<open>undistort\<close> of BrownConradyTransform and of
  KannalaBrandtK3Transform raise \<open>NotImplementedError\<close> on every input and return
  no value.
\<close>

theorem unsupported_operations:
  "brown_conrady_distort params points = Inl NotImplementedError \<and>
   brown_conrady_undistort params points = Inl NotImplementedError \<and>
   kannala_brandt_k3_distort params points = Inl NotImplementedError \<and>
   kannala_brandt_k3_undistort params points = Inl NotImplementedError"
  by (simp add: brown_conrady_distort_def brown_conrady_undistort_def
      kannala_brandt_k3_distort_def kannala_brandt_k3_undistort_def)

subsection \<open>BrownConradyTransform.unproject\<close>

text \<open>On eight coefficients no read of the loop body raises.\<close>

lemma unproject_body_eight:
  "\<exists>it. unproject_body [k1, k2, p1, p2, k3, k4, k5, k6] uv xy = Inr it"
  unfolding unproject_body_def Let_def project_eight trailing_eight leading_eight ebind_Inr
  by (cases xy) (simp add: project_eight ebind_Inr)

text \<open>Every pass leaves the estimate as it found it.\<close>

lemma unproject_loop_eight:
  "unproject_loop n [k1, k2, p1, p2, k3, k4, k5, k6] uv xy = Inr xy"
proof (induction n)
  case 0
  show ?case by simp
next
  case (Suc n)
  obtain it where "unproject_body [k1, k2, p1, p2, k3, k4, k5, k6] uv xy = Inr it"
    using unproject_body_eight by blast
  with Suc show ?case by (simp add: ebind_Inr)
qed

text \<open>
  C1. The claim: \<open>unproject\<close> starts from the target, runs 50 passes, each solving
  \<open>J * dp = - f(p)\<close> and updating the estimate, and returns the final estimate.
  The code: for every eight coefficients and every target the estimate after the 50
  passes is still the target, and the call returns \<open>None\<close>, no estimate.
\<close>

theorem unproject_returns_no_estimate:
  "unproject_loop 50 [k1, k2, p1, p2, k3, k4, k5, k6] uv uv = Inr uv \<and>
   unproject [k1, k2, p1, p2, k3, k4, k5, k6] uv = Inr None"
  by (simp add: unproject_def unproject_loop_eight ebind_Inr)

text \<open>
  C3. The claim: \<open>unproject\<close> of \<open>project(params, p)\<close> is within about \<open>1e-4\<close> of
  \<open>p\<close>. The code at \<open>k1 = 1/2\<close>, the other coefficients 0, and \<open>p = (1, 0)\<close>:
  \<open>project\<close> gives \<open>(3/2, 0)\<close>; \<open>unproject\<close> of it keeps the estimate
  \<open>(3/2, 0)\<close> through the 50 passes and returns \<open>None\<close>.
\<close>

theorem round_trip_returns_no_point:
  "project [1/2, 0, 0, 0, 0, 0, 0, 0] (1, 0) = Inr (Fin (3/2), Fin 0) \<and>
   unproject_loop 50 [1/2, 0, 0, 0, 0, 0, 0, 0] (3/2, 0) (3/2, 0) = Inr (3/2, 0) \<and>
   unproject [1/2, 0, 0, 0, 0, 0, 0, 0] (3/2, 0) = Inr None"
  by (simp add: project_eight tdiv_def unproject_def unproject_loop_eight ebind_Inr)

subsection \<open>The Jacobian entries of the loop body\<close>

text \<open>A differentiable real function that is non-zero at a point is non-zero near it.\<close>

lemma nonzero_near:
  fixes f :: "real \<Rightarrow> real"
  assumes "(f has_real_derivative f') (at x)" and "f x \<noteq> 0"
  shows "eventually (\<lambda>t. f t \<noteq> 0) (nhds x)"
proof -
  have "isCont f x" using assms(1) by (rule DERIV_isCont)
  then have "(f \<longlongrightarrow> f x) (nhds x)"
    using continuous_at_imp_continuous_at_within isCont_def tendsto_at_iff_tendsto_nhds by blast
  then show ?thesis
    using assms(2) tendsto_imp_eventually_ne by blast
qed

text \<open>
  Where the rational denominator is non-zero, \<open>du_dx\<close> is the partial derivative of
  the first coordinate of \<open>project\<close> in \<open>x\<close>.
\<close>

lemma du_dx_analytic:
  fixes k1 k2 p1 p2 k3 k4 k5 k6 x y :: real and uv :: vector2
  assumes den: "1 + k4 * (x * x + y * y) + k5 * ((x * x + y * y) * (x * x + y * y))
                  + k6 * ((x * x + y * y) * (x * x + y * y) * (x * x + y * y)) \<noteq> 0"
  shows "\<exists>it r. unproject_body [k1, k2, p1, p2, k3, k4, k5, k6] uv (x, y) = Inr it \<and>
           du_dx it = Fin r \<and>
           ((\<lambda>t. project_u [k1, k2, p1, p2, k3, k4, k5, k6] t y) has_real_derivative r) (at x)"
proof -
  define R where "R = (\<lambda>t::real. t * t + y * y)"
  define Nf where "Nf = (\<lambda>t. 1 + k1 * R t + k2 * (R t * R t) + k3 * (R t * R t * R t))"
  define Df where "Df = (\<lambda>t. 1 + k4 * R t + k5 * (R t * R t) + k6 * (R t * R t * R t))"
  define g where "g = (\<lambda>t. t * Nf t * (1 / Df t) + p1 * (2 * t * y) + p2 * (R t + 2 * t * t))"
  define N' where "N' = k1 + 2 * k2 * R x + 3 * k3 * (R x * R x)"
  define D' where "D' = k4 + 2 * k5 * R x + 3 * k6 * (R x * R x)"
  define r where "r = 1 / (Df x * Df x) *
      (- (x * x) * (2 * D' * Nf x) + Df x * (x * x * (2 * N') + Nf x)
       + Df x * Df x * (y * (2 * p1) + 6 * (x * p2)))"
  have Rx: "x * x + y * y = R x"
    by (simp add: R_def)
  have Dx: "Df x \<noteq> 0"
    using den by (simp add: Df_def R_def)
  have pu: "project_u [k1, k2, p1, p2, k3, k4, k5, k6] t y = (if Df t = 0 then 0 else g t)" for t
    by (simp add: project_u_def project_eight tdiv_def fin_part_def g_def Df_def Nf_def R_def)
  have DR: "(R has_real_derivative 2 * x) (at x)"
    unfolding R_def by (auto intro!: derivative_eq_intros)
  have DN: "(Nf has_real_derivative N' * (2 * x)) (at x)"
    unfolding Nf_def N'_def
    by (rule derivative_eq_intros DR refl)+ (simp add: algebra_simps)
  have DD: "(Df has_real_derivative D' * (2 * x)) (at x)"
    unfolding Df_def D'_def
    by (rule derivative_eq_intros DR refl)+ (simp add: algebra_simps)
  have Dg: "(g has_real_derivative r) (at x)"
    unfolding g_def
    by (rule derivative_eq_intros DR DN DD refl Dx)+
       (use Dx in \<open>simp add: r_def field_simps\<close>)
  have ev: "eventually (\<lambda>t. project_u [k1, k2, p1, p2, k3, k4, k5, k6] t y = g t) (nhds x)"
    using nonzero_near [OF DD Dx] by (rule eventually_mono) (simp add: pu)
  have main: "((\<lambda>t. project_u [k1, k2, p1, p2, k3, k4, k5, k6] t y) has_real_derivative r) (at x)"
    using Dg DERIV_cong_ev [OF refl ev refl] by simp
  have c5: "R x * k4 + R x * R x * k5 + R x * R x * R x * k6 + 1 = Df x"
    by (simp add: Df_def algebra_simps)
  have c17: "1 * (R x * k1) + 1 * (R x * R x * k2) + 1 * (R x * R x * R x * k3) + 1 = Nf x"
    by (simp add: Nf_def algebra_simps)
  have c15: "2 * (2 * R x * k5 + 3 * (R x * R x) * k6 + k4)
               * (R x * k1 + R x * R x * k2 + R x * R x * R x * k3 + 1) = 2 * D' * Nf x"
    by (simp add: Nf_def D'_def algebra_simps)
  have c16: "2 * (2 * R x) * k2 + 2 * (3 * (R x * R x)) * k3 + 2 * k1 = 2 * N'"
    by (simp add: N'_def algebra_simps)
  have body: "\<exists>it. unproject_body [k1, k2, p1, p2, k3, k4, k5, k6] uv (x, y) = Inr it \<and>
           du_dx it = Fin r"
    unfolding unproject_body_def Let_def project_eight trailing_eight leading_eight ebind_Inr
      fst_conv snd_conv Rx c5 c17 c15 c16
    using Dx by (simp add: tdiv_def r_def)
  from body main show ?thesis by blast
qed

text \<open>Likewise \<open>dv_dy\<close> is the partial derivative of the second coordinate in \<open>y\<close>.\<close>

lemma dv_dy_analytic:
  fixes k1 k2 p1 p2 k3 k4 k5 k6 x y :: real and uv :: vector2
  assumes den: "1 + k4 * (x * x + y * y) + k5 * ((x * x + y * y) * (x * x + y * y))
                  + k6 * ((x * x + y * y) * (x * x + y * y) * (x * x + y * y)) \<noteq> 0"
  shows "\<exists>it r. unproject_body [k1, k2, p1, p2, k3, k4, k5, k6] uv (x, y) = Inr it \<and>
           dv_dy it = Fin r \<and>
           ((\<lambda>t. project_v [k1, k2, p1, p2, k3, k4, k5, k6] x t) has_real_derivative r) (at y)"
proof -
  define R where "R = (\<lambda>t::real. x * x + t * t)"
  define Nf where "Nf = (\<lambda>t. 1 + k1 * R t + k2 * (R t * R t) + k3 * (R t * R t * R t))"
  define Df where "Df = (\<lambda>t. 1 + k4 * R t + k5 * (R t * R t) + k6 * (R t * R t * R t))"
  define g where "g = (\<lambda>t. t * Nf t * (1 / Df t) + p1 * (R t + 2 * t * t) + p2 * (2 * x * t))"
  define N' where "N' = k1 + 2 * k2 * R y + 3 * k3 * (R y * R y)"
  define D' where "D' = k4 + 2 * k5 * R y + 3 * k6 * (R y * R y)"
  define r where "r = 1 / (Df y * Df y) *
      (- (y * y) * (2 * D' * Nf y) + Df y * (y * y * (2 * N') + Nf y)
       + Df y * Df y * (6 * y * p1 + 2 * (x * p2)))"
  have Ry: "x * x + y * y = R y"
    by (simp add: R_def)
  have Dy: "Df y \<noteq> 0"
    using den by (simp add: Df_def R_def)
  have pv: "project_v [k1, k2, p1, p2, k3, k4, k5, k6] x t = (if Df t = 0 then 0 else g t)" for t
    by (simp add: project_v_def project_eight tdiv_def fin_part_def g_def Df_def Nf_def R_def)
  have DR: "(R has_real_derivative 2 * y) (at y)"
    unfolding R_def by (auto intro!: derivative_eq_intros)
  have DN: "(Nf has_real_derivative N' * (2 * y)) (at y)"
    unfolding Nf_def N'_def
    by (rule derivative_eq_intros DR refl)+ (simp add: algebra_simps)
  have DD: "(Df has_real_derivative D' * (2 * y)) (at y)"
    unfolding Df_def D'_def
    by (rule derivative_eq_intros DR refl)+ (simp add: algebra_simps)
  have Dg: "(g has_real_derivative r) (at y)"
    unfolding g_def
    by (rule derivative_eq_intros DR DN DD refl Dy)+
       (use Dy in \<open>simp add: r_def field_simps\<close>)
  have ev: "eventually (\<lambda>t. project_v [k1, k2, p1, p2, k3, k4, k5, k6] x t = g t) (nhds y)"
    using nonzero_near [OF DD Dy] by (rule eventually_mono) (simp add: pv)
  have main: "((\<lambda>t. project_v [k1, k2, p1, p2, k3, k4, k5, k6] x t) has_real_derivative r) (at y)"
    using Dg DERIV_cong_ev [OF refl ev refl] by simp
  have c5: "R y * k4 + R y * R y * k5 + R y * R y * R y * k6 + 1 = Df y"
    by (simp add: Df_def algebra_simps)
  have c17: "1 * (R y * k1) + 1 * (R y * R y * k2) + 1 * (R y * R y * R y * k3) + 1 = Nf y"
    by (simp add: Nf_def algebra_simps)
  have c15: "2 * (2 * R y * k5 + 3 * (R y * R y) * k6 + k4)
               * (R y * k1 + R y * R y * k2 + R y * R y * R y * k3 + 1) = 2 * D' * Nf y"
    by (simp add: Nf_def D'_def algebra_simps)
  have c16: "2 * (2 * R y) * k2 + 2 * (3 * (R y * R y)) * k3 + 2 * k1 = 2 * N'"
    by (simp add: N'_def algebra_simps)
  have body: "\<exists>it. unproject_body [k1, k2, p1, p2, k3, k4, k5, k6] uv (x, y) = Inr it \<and>
           dv_dy it = Fin r"
    unfolding unproject_body_def Let_def project_eight trailing_eight leading_eight ebind_Inr
      fst_conv snd_conv Ry c5 c17 c15 c16
    using Dy by (simp add: tdiv_def r_def)
  from body main show ?thesis by blast
qed

text \<open>
  The two cross terms share \<open>c20 = - c15 * c19 + c16 * c19 * c15\<close>. The derivative
  of the quotient needs \<open>c16 * c19 * c5\<close> in the second summand, so \<open>du_dy\<close>
  differs from the partial derivative of the first coordinate in \<open>y\<close> by
  \<open>2 * cdist' * x * y * (2 * den' * cdist - den) / den\<^sup>2\<close>, where \<open>cdist'\<close> and
  \<open>den'\<close> are the derivatives of the radial numerator and denominator in \<open>r2\<close>.
\<close>

lemma du_dy_discrepancy:
  fixes k1 k2 p1 p2 k3 k4 k5 k6 x y :: real and uv :: vector2
  assumes den: "1 + k4 * (x * x + y * y) + k5 * ((x * x + y * y) * (x * x + y * y))
                  + k6 * ((x * x + y * y) * (x * x + y * y) * (x * x + y * y)) \<noteq> 0"
  shows "\<exists>it rc ra. unproject_body [k1, k2, p1, p2, k3, k4, k5, k6] uv (x, y) = Inr it \<and>
           du_dy it = Fin rc \<and>
           ((\<lambda>t. project_u [k1, k2, p1, p2, k3, k4, k5, k6] x t) has_real_derivative ra) (at y) \<and>
           rc - ra =
             (let r2 = x * x + y * y;
                  cdist = 1 + k1 * r2 + k2 * (r2 * r2) + k3 * (r2 * r2 * r2);
                  den = 1 + k4 * r2 + k5 * (r2 * r2) + k6 * (r2 * r2 * r2);
                  cdist' = k1 + 2 * k2 * r2 + 3 * k3 * (r2 * r2);
                  den' = k4 + 2 * k5 * r2 + 3 * k6 * (r2 * r2)
              in 2 * cdist' * (x * y) * (2 * den' * cdist - den) / (den * den))"
proof -
  define R where "R = (\<lambda>t::real. x * x + t * t)"
  define Nf where "Nf = (\<lambda>t. 1 + k1 * R t + k2 * (R t * R t) + k3 * (R t * R t * R t))"
  define Df where "Df = (\<lambda>t. 1 + k4 * R t + k5 * (R t * R t) + k6 * (R t * R t * R t))"
  define g where "g = (\<lambda>t. x * Nf t * (1 / Df t) + p1 * (2 * x * t) + p2 * (R t + 2 * x * x))"
  define N' where "N' = k1 + 2 * k2 * R y + 3 * k3 * (R y * R y)"
  define D' where "D' = k4 + 2 * k5 * R y + 3 * k6 * (R y * R y)"
  define ra where "ra = 1 / (Df y * Df y) *
      (x * y * (2 * N' * Df y - 2 * D' * Nf y) + Df y * Df y * (x * (2 * p1) + 2 * (y * p2)))"
  define rc where "rc = 1 / (Df y * Df y) *
      (- (2 * D' * Nf y) * (x * y) + 2 * N' * (x * y) * (2 * D' * Nf y)
       + Df y * Df y * (x * (2 * p1) + 2 * (y * p2)))"
  have Ry: "x * x + y * y = R y"
    by (simp add: R_def)
  have Dy: "Df y \<noteq> 0"
    using den by (simp add: Df_def R_def)
  have pu: "project_u [k1, k2, p1, p2, k3, k4, k5, k6] x t = (if Df t = 0 then 0 else g t)" for t
    by (simp add: project_u_def project_eight tdiv_def fin_part_def g_def Df_def Nf_def R_def)
  have DR: "(R has_real_derivative 2 * y) (at y)"
    unfolding R_def by (auto intro!: derivative_eq_intros)
  have DN: "(Nf has_real_derivative N' * (2 * y)) (at y)"
    unfolding Nf_def N'_def
    by (rule derivative_eq_intros DR refl)+ (simp add: algebra_simps)
  have DD: "(Df has_real_derivative D' * (2 * y)) (at y)"
    unfolding Df_def D'_def
    by (rule derivative_eq_intros DR refl)+ (simp add: algebra_simps)
  have Dg: "(g has_real_derivative ra) (at y)"
    unfolding g_def
    by (rule derivative_eq_intros DR DN DD refl Dy)+
       (use Dy in \<open>simp add: ra_def field_simps\<close>)
  have ev: "eventually (\<lambda>t. project_u [k1, k2, p1, p2, k3, k4, k5, k6] x t = g t) (nhds y)"
    using nonzero_near [OF DD Dy] by (rule eventually_mono) (simp add: pu)
  have main: "((\<lambda>t. project_u [k1, k2, p1, p2, k3, k4, k5, k6] x t) has_real_derivative ra) (at y)"
    using Dg DERIV_cong_ev [OF refl ev refl] by simp
  have c5: "R y * k4 + R y * R y * k5 + R y * R y * R y * k6 + 1 = Df y"
    by (simp add: Df_def algebra_simps)
  have c15: "2 * (2 * R y * k5 + 3 * (R y * R y) * k6 + k4)
               * (R y * k1 + R y * R y * k2 + R y * R y * R y * k3 + 1) = 2 * D' * Nf y"
    by (simp add: Nf_def D'_def algebra_simps)
  have c16: "2 * (2 * R y) * k2 + 2 * (3 * (R y * R y)) * k3 + 2 * k1 = 2 * N'"
    by (simp add: N'_def algebra_simps)
  have body: "\<exists>it. unproject_body [k1, k2, p1, p2, k3, k4, k5, k6] uv (x, y) = Inr it \<and>
           du_dy it = Fin rc"
    unfolding unproject_body_def Let_def project_eight trailing_eight leading_eight ebind_Inr
      fst_conv snd_conv Ry c5 c15 c16
    using Dy by (simp add: tdiv_def rc_def)
  have diff: "rc - ra = 2 * N' * (x * y) * (2 * D' * Nf y - Df y) / (Df y * Df y)"
    using Dy by (simp add: rc_def ra_def field_simps)
  have "rc - ra =
             (let r2 = x * x + y * y;
                  cdist = 1 + k1 * r2 + k2 * (r2 * r2) + k3 * (r2 * r2 * r2);
                  den = 1 + k4 * r2 + k5 * (r2 * r2) + k6 * (r2 * r2 * r2);
                  cdist' = k1 + 2 * k2 * r2 + 3 * k3 * (r2 * r2);
                  den' = k4 + 2 * k5 * r2 + 3 * k6 * (r2 * r2)
              in 2 * cdist' * (x * y) * (2 * den' * cdist - den) / (den * den))"
    unfolding Let_def Ry diff
    by (simp only: N'_def D'_def Nf_def Df_def)
  with body main show ?thesis by blast
qed

text \<open>\<open>dv_dx\<close> differs from the partial derivative of the second coordinate in \<open>x\<close> by the same amount.\<close>

lemma dv_dx_discrepancy:
  fixes k1 k2 p1 p2 k3 k4 k5 k6 x y :: real and uv :: vector2
  assumes den: "1 + k4 * (x * x + y * y) + k5 * ((x * x + y * y) * (x * x + y * y))
                  + k6 * ((x * x + y * y) * (x * x + y * y) * (x * x + y * y)) \<noteq> 0"
  shows "\<exists>it rc ra. unproject_body [k1, k2, p1, p2, k3, k4, k5, k6] uv (x, y) = Inr it \<and>
           dv_dx it = Fin rc \<and>
           ((\<lambda>t. project_v [k1, k2, p1, p2, k3, k4, k5, k6] t y) has_real_derivative ra) (at x) \<and>
           rc - ra =
             (let r2 = x * x + y * y;
                  cdist = 1 + k1 * r2 + k2 * (r2 * r2) + k3 * (r2 * r2 * r2);
                  den = 1 + k4 * r2 + k5 * (r2 * r2) + k6 * (r2 * r2 * r2);
                  cdist' = k1 + 2 * k2 * r2 + 3 * k3 * (r2 * r2);
                  den' = k4 + 2 * k5 * r2 + 3 * k6 * (r2 * r2)
              in 2 * cdist' * (x * y) * (2 * den' * cdist - den) / (den * den))"
proof -
  define R where "R = (\<lambda>t::real. t * t + y * y)"
  define Nf where "Nf = (\<lambda>t. 1 + k1 * R t + k2 * (R t * R t) + k3 * (R t * R t * R t))"
  define Df where "Df = (\<lambda>t. 1 + k4 * R t + k5 * (R t * R t) + k6 * (R t * R t * R t))"
  define g where "g = (\<lambda>t. y * Nf t * (1 / Df t) + p1 * (R t + 2 * y * y) + p2 * (2 * t * y))"
  define N' where "N' = k1 + 2 * k2 * R x + 3 * k3 * (R x * R x)"
  define D' where "D' = k4 + 2 * k5 * R x + 3 * k6 * (R x * R x)"
  define ra where "ra = 1 / (Df x * Df x) *
      (x * y * (2 * N' * Df x - 2 * D' * Nf x) + Df x * Df x * (2 * x * p1 + 2 * (y * p2)))"
  define rc where "rc = 1 / (Df x * Df x) *
      (- (2 * D' * Nf x) * (x * y) + 2 * N' * (x * y) * (2 * D' * Nf x)
       + Df x * Df x * (2 * x * p1 + 2 * (y * p2)))"
  have Rx: "x * x + y * y = R x"
    by (simp add: R_def)
  have Dx: "Df x \<noteq> 0"
    using den by (simp add: Df_def R_def)
  have pv: "project_v [k1, k2, p1, p2, k3, k4, k5, k6] t y = (if Df t = 0 then 0 else g t)" for t
    by (simp add: project_v_def project_eight tdiv_def fin_part_def g_def Df_def Nf_def R_def)
  have DR: "(R has_real_derivative 2 * x) (at x)"
    unfolding R_def by (auto intro!: derivative_eq_intros)
  have DN: "(Nf has_real_derivative N' * (2 * x)) (at x)"
    unfolding Nf_def N'_def
    by (rule derivative_eq_intros DR refl)+ (simp add: algebra_simps)
  have DD: "(Df has_real_derivative D' * (2 * x)) (at x)"
    unfolding Df_def D'_def
    by (rule derivative_eq_intros DR refl)+ (simp add: algebra_simps)
  have Dg: "(g has_real_derivative ra) (at x)"
    unfolding g_def
    by (rule derivative_eq_intros DR DN DD refl Dx)+
       (use Dx in \<open>simp add: ra_def field_simps\<close>)
  have ev: "eventually (\<lambda>t. project_v [k1, k2, p1, p2, k3, k4, k5, k6] t y = g t) (nhds x)"
    using nonzero_near [OF DD Dx] by (rule eventually_mono) (simp add: pv)
  have main: "((\<lambda>t. project_v [k1, k2, p1, p2, k3, k4, k5, k6] t y) has_real_derivative ra) (at x)"
    using Dg DERIV_cong_ev [OF refl ev refl] by simp
  have c5: "R x * k4 + R x * R x * k5 + R x * R x * R x * k6 + 1 = Df x"
    by (simp add: Df_def algebra_simps)
  have c15: "2 * (2 * R x * k5 + 3 * (R x * R x) * k6 + k4)
               * (R x * k1 + R x * R x * k2 + R x * R x * R x * k3 + 1) = 2 * D' * Nf x"
    by (simp add: Nf_def D'_def algebra_simps)
  have c16: "2 * (2 * R x) * k2 + 2 * (3 * (R x * R x)) * k3 + 2 * k1 = 2 * N'"
    by (simp add: N'_def algebra_simps)
  have body: "\<exists>it. unproject_body [k1, k2, p1, p2, k3, k4, k5, k6] uv (x, y) = Inr it \<and>
           dv_dx it = Fin rc"
    unfolding unproject_body_def Let_def project_eight trailing_eight leading_eight ebind_Inr
      fst_conv snd_conv Rx c5 c15 c16
    using Dx by (simp add: tdiv_def rc_def)
  have diff: "rc - ra = 2 * N' * (x * y) * (2 * D' * Nf x - Df x) / (Df x * Df x)"
    using Dx by (simp add: rc_def ra_def field_simps)
  have "rc - ra =
             (let r2 = x * x + y * y;
                  cdist = 1 + k1 * r2 + k2 * (r2 * r2) + k3 * (r2 * r2 * r2);
                  den = 1 + k4 * r2 + k5 * (r2 * r2) + k6 * (r2 * r2 * r2);
                  cdist' = k1 + 2 * k2 * r2 + 3 * k3 * (r2 * r2);
                  den' = k4 + 2 * k5 * r2 + 3 * k6 * (r2 * r2)
              in 2 * cdist' * (x * y) * (2 * den' * cdist - den) / (den * den))"
    unfolding Let_def Rx diff
    by (simp only: N'_def D'_def Nf_def Df_def)
  with body main show ?thesis by blast
qed


text \<open>The coefficients \<open>k1 = 1\<close>, all others 0, at the estimate \<open>(1, 1)\<close>.\<close>

lemma project_u_k1: "project_u [1, 0, 0, 0, 0, 0, 0, 0] x y = x * (1 + (x * x + y * y))"
  by (simp add: project_u_def project_eight tdiv_def fin_part_def)

lemma project_v_k1: "project_v [1, 0, 0, 0, 0, 0, 0, 0] x y = y * (1 + (x * x + y * y))"
  by (simp add: project_v_def project_eight tdiv_def fin_part_def)

lemma unproject_body_k1:
  "unproject_body [1, 0, 0, 0, 0, 0, 0, 0] (1, 1) (1, 1) =
     Inr \<lparr> f_xy = (Fin 2, Fin 2), du_dx = Fin 5, du_dy = Fin 0, dv_dx = Fin 0, dv_dy = Fin 5 \<rparr>"
  unfolding unproject_body_def Let_def project_eight trailing_eight leading_eight ebind_Inr
    fst_conv snd_conv
  by (simp add: tdiv_def)

text \<open>
  C2. The claim: where the rational denominator is non-zero, \<open>du_dx\<close>, \<open>du_dy\<close>,
  \<open>dv_dx\<close>, \<open>dv_dy\<close> are the four partial derivatives of \<open>project\<close> at the
  estimate. The code at \<open>k1 = 1\<close>, the other coefficients 0 (denominator 1), and
  target \<open>(1, 1)\<close>, hence estimate \<open>(1, 1)\<close>: a pass computes \<open>du_dy = 0\<close> and
  \<open>dv_dx = 0\<close>, while the partial derivative of the first coordinate in \<open>y\<close> and of
  the second in \<open>x\<close> are both 2, not 0.
\<close>

theorem jacobian_cross_terms_wrong:
  "unproject_body [1, 0, 0, 0, 0, 0, 0, 0] (1, 1) (1, 1) =
     Inr \<lparr> f_xy = (Fin 2, Fin 2), du_dx = Fin 5, du_dy = Fin 0, dv_dx = Fin 0, dv_dy = Fin 5 \<rparr> \<and>
   ((\<lambda>y. project_u [1, 0, 0, 0, 0, 0, 0, 0] 1 y) has_real_derivative 2) (at 1) \<and>
   \<not> ((\<lambda>y. project_u [1, 0, 0, 0, 0, 0, 0, 0] 1 y) has_real_derivative 0) (at 1) \<and>
   ((\<lambda>x. project_v [1, 0, 0, 0, 0, 0, 0, 0] x 1) has_real_derivative 2) (at 1) \<and>
   \<not> ((\<lambda>x. project_v [1, 0, 0, 0, 0, 0, 0, 0] x 1) has_real_derivative 0) (at 1)"
proof -
  have u: "((\<lambda>y. project_u [1, 0, 0, 0, 0, 0, 0, 0] 1 y) has_real_derivative 2) (at 1)"
    unfolding project_u_k1 by (auto intro!: derivative_eq_intros)
  have v: "((\<lambda>x. project_v [1, 0, 0, 0, 0, 0, 0, 0] x 1) has_real_derivative 2) (at 1)"
    unfolding project_v_k1 by (auto intro!: derivative_eq_intros)
  have nu: "\<not> ((\<lambda>y. project_u [1, 0, 0, 0, 0, 0, 0, 0] 1 y) has_real_derivative 0) (at 1)"
  proof
    assume "((\<lambda>y. project_u [1, 0, 0, 0, 0, 0, 0, 0] 1 y) has_real_derivative 0) (at 1)"
    from DERIV_unique [OF this u] show False by simp
  qed
  have nv: "\<not> ((\<lambda>x. project_v [1, 0, 0, 0, 0, 0, 0, 0] x 1) has_real_derivative 0) (at 1)"
  proof
    assume "((\<lambda>x. project_v [1, 0, 0, 0, 0, 0, 0, 0] x 1) has_real_derivative 0) (at 1)"
    from DERIV_unique [OF this v] show False by simp
  qed
  from unproject_body_k1 u nu v nv show ?thesis by blast
qed

end
